theory Spec2Isabelle
  imports Main "HOL-Library.Char_ord" "HOL-Library.List_Lexorder" "HOL-Library.Multiset"
begin

section \<open>The task files of \<open>.angreal\<close>: a shallow embedding\<close>

text \<open>
  The four task files (\<open>task_build.py\<close>, \<open>task_check.py\<close>, \<open>task_test.py\<close>,
  \<open>task_docs.py\<close>) declare twelve commands. Each command reads the file system
  (\<open>os.getcwd\<close>, \<open>os.listdir\<close>, \<open>os.path.isdir\<close>, \<open>os.path.exists\<close>), prints, and
  launches external tools with \<open>subprocess.run(..., check=True)\<close> inside a
  \<open>with Flox(".")\<close> block.

  The embedding makes these effects explicit. A command is a function of the file
  system and of the outcome of every external tool; it returns the sequence of
  observable events in the order they happen, together with either the exception
  that left the function or its normal return.
\<close>

subsection \<open>The operating system as the tasks see it\<close>

type_synonym path = string

text \<open>The exceptions \<open>os.listdir\<close> raises.\<close>

datatype os_error = FileNotFoundError | NotADirectoryError | PermissionError

text \<open>
  The file system is taken to be unchanged while one command runs. Names are byte
  strings; on UTF-8 names the byte-wise lexicographic order of \<open>string\<close> is the
  code-point order Python's \<open>sorted\<close> uses on \<open>str\<close>.
\<close>

record filesystem =
  getcwd :: path
  listdir :: "path \<Rightarrow> os_error + string list"
  path_isdir :: "path \<Rightarrow> bool"
  path_exists :: "path \<Rightarrow> bool"

text \<open>\<open>posixpath.join\<close> on two components.\<close>

definition startswith_sep :: "string \<Rightarrow> bool" where
  "startswith_sep b = (case b of [] \<Rightarrow> False | c # _ \<Rightarrow> c = CHR ''/'')"

definition endswith_sep :: "string \<Rightarrow> bool" where
  "endswith_sep a = (case rev a of [] \<Rightarrow> False | c # _ \<Rightarrow> c = CHR ''/'')"

definition path_join :: "path \<Rightarrow> string \<Rightarrow> path" where
  "path_join a b =
     (if startswith_sep b then b
      else if a = [] \<or> endswith_sep a then a @ b
      else a @ ''/'' @ b)"

subsection \<open>Python values\<close>

text \<open>
  The values a task function can receive for a parameter, and their truth value as
  \<open>if release:\<close> and \<open>not check_only\<close> take it.
\<close>

datatype pyval = PyNone | PyBool bool | PyStr string

fun truthy :: "pyval \<Rightarrow> bool" where
  "truthy PyNone = False"
| "truthy (PyBool b) = b"
| "truthy (PyStr s) = (s \<noteq> [])"

subsection \<open>External tools\<close>

text \<open>
  One call of \<open>subprocess.run\<close>: the argument vector and the \<open>cwd\<close> keyword
  (\<open>None\<close> when the call does not pass it, so the child inherits the directory).
\<close>

record invocation =
  argv :: "string list"
  cwd :: "path option"

text \<open>
  What the child did: it ran and exited with a return code, or it could not be
  launched at all (\<open>subprocess.run\<close> then raises an \<open>OSError\<close>).
\<close>

datatype completed = Exited int | LaunchFailed

text \<open>
  The outcome of every external tool is a parameter of the model, given per
  invocation. No command launches the same argument vector in the same directory
  twice when the listing of the runtimes directory has no repeated name, so nothing
  is lost by not indexing the outcome by time.
\<close>

type_synonym runner = "invocation \<Rightarrow> completed"

text \<open>
  The exceptions that end a command: \<open>CalledProcessError\<close> with the return code and
  the command, the \<open>OSError\<close> of a launch that failed, the \<open>OSError\<close> of
  \<open>os.listdir\<close>, the \<open>TypeError\<close> of a call with a keyword the function does not
  have (or of an argument vector with an element that is not a string), and the
  refusal of a command line.
\<close>

datatype exn =
    CalledProcessError int "string list"
  | LaunchError "string list"
  | ListdirError os_error
  | TypeError string
  | UsageError

text \<open>
  What can be observed of a run: entering and leaving the Flox environment, a line
  printed, an external tool launched.
\<close>

datatype event = FloxEnter | FloxExit | Print string | Run invocation

type_synonym 'a task = "event list \<times> (exn + 'a)"

text \<open>Sequencing of statements: an exception in the first skips the rest.\<close>

definition and_then :: "'a task \<Rightarrow> ('a \<Rightarrow> 'b task) \<Rightarrow> 'b task" where
  "and_then m k =
     (case m of
        (t, Inl e) \<Rightarrow> (t, Inl e)
      | (t, Inr x) \<Rightarrow> (case k x of (t', r) \<Rightarrow> (t @ t', r)))"

definition print :: "string \<Rightarrow> unit task" where
  "print s = ([Print s], Inr ())"

text \<open>
  \<open>subprocess.run(cmd, cwd=dir, check=True)\<close>: the child is launched once; a
  non-zero return code raises \<open>CalledProcessError\<close>.
\<close>

definition subprocess_run :: "runner \<Rightarrow> string list \<Rightarrow> path option \<Rightarrow> unit task" where
  "subprocess_run run cmd dir =
     (let inv = \<lparr>argv = cmd, cwd = dir\<rparr> in
      case run inv of
        Exited returncode \<Rightarrow>
          if returncode = 0 then ([Run inv], Inr ())
          else ([Run inv], Inl (CalledProcessError returncode cmd))
      | LaunchFailed \<Rightarrow> ([Run inv], Inl (LaunchError cmd)))"

text \<open>
  \<open>with Flox("."): body\<close>. The context manager is entered, the body runs, and the
  \<open>with\<close> statement calls the manager's exit on every way out of the body; an
  exception of the body goes on to the caller.
\<close>

definition with_Flox :: "'a task \<Rightarrow> 'a task" where
  "with_Flox body = (case body of (t, r) \<Rightarrow> (FloxEnter # t @ [FloxExit], r))"

text \<open>A \<open>for\<close> loop over a list whose body returns nothing.\<close>

fun for_each :: "'a list \<Rightarrow> ('a \<Rightarrow> unit task) \<Rightarrow> unit task" where
  "for_each [] body = ([], Inr ())"
| "for_each (x # xs) body = and_then (body x) (\<lambda>_. for_each xs body)"

subsection \<open>\<open>task_build.py\<close>\<close>

definition build_workspace :: "bool \<Rightarrow> filesystem \<Rightarrow> runner \<Rightarrow> unit task" where
  "build_workspace release fs run =
     with_Flox
       (let cmd = [''cargo'', ''build'', ''--workspace''];
            cmd = (if release then cmd @ [''--release''] else cmd)
        in subprocess_run run cmd None)"

definition build_runtime_entry ::
  "bool \<Rightarrow> filesystem \<Rightarrow> runner \<Rightarrow> path \<Rightarrow> string \<Rightarrow> unit task" where
  "build_runtime_entry release fs run runtimes_dir entry =
     (let runtime_path = path_join runtimes_dir entry in
      if path_isdir fs runtime_path \<and> path_exists fs (path_join runtime_path ''Cargo.toml'')
      then
        and_then (print (CHR 0x0A # ''--- Building runtime: '' @ entry @ '' ---'')) (\<lambda>_.
          let cmd = [''cargo'', ''build'', ''--target'', ''wasm32-wasip1''];
              cmd = (if release then cmd @ [''--release''] else cmd)
          in subprocess_run run cmd (Some runtime_path))
      else ([], Inr ()))"

definition build_runtimes :: "bool \<Rightarrow> filesystem \<Rightarrow> runner \<Rightarrow> unit task" where
  "build_runtimes release fs run =
     with_Flox
       (let runtimes_dir = path_join (getcwd fs) ''runtimes'' in
        case listdir fs runtimes_dir of
          Inl e \<Rightarrow> ([], Inl (ListdirError e))
        | Inr entries \<Rightarrow>
            for_each (sort entries) (build_runtime_entry release fs run runtimes_dir))"

subsection \<open>\<open>task_check.py\<close>\<close>

definition run_fmt :: "bool \<Rightarrow> runner \<Rightarrow> unit task" where
  "run_fmt apply_fix run =
     (if apply_fix then subprocess_run run [''cargo'', ''fmt'', ''--all''] None
      else subprocess_run run [''cargo'', ''fmt'', ''--all'', ''--'', ''--check''] None)"

definition run_clippy :: "bool \<Rightarrow> runner \<Rightarrow> unit task" where
  "run_clippy apply_fix run =
     (let cmd = [''cargo'', ''clippy'', ''--workspace''];
          cmd = (if apply_fix then (cmd @ [''--fix'']) @ [''--allow-dirty''] else cmd);
          cmd = cmd @ [''--'', ''-D'', ''warnings'']
      in subprocess_run run cmd None)"

definition check_all :: "bool \<Rightarrow> filesystem \<Rightarrow> runner \<Rightarrow> unit task" where
  "check_all check_only fs run =
     (let apply = \<not> check_only in
      with_Flox
        (and_then (run_fmt apply run) (\<lambda>_.
         and_then (run_clippy apply run) (\<lambda>_.
         subprocess_run run [''cargo'', ''check'', ''--workspace''] None))))"

definition check_workspace :: "filesystem \<Rightarrow> runner \<Rightarrow> unit task" where
  "check_workspace fs run =
     with_Flox (subprocess_run run [''cargo'', ''check'', ''--workspace''] None)"

definition check_fmt :: "bool \<Rightarrow> filesystem \<Rightarrow> runner \<Rightarrow> unit task" where
  "check_fmt check_only fs run = with_Flox (run_fmt (\<not> check_only) run)"

definition check_clippy :: "bool \<Rightarrow> filesystem \<Rightarrow> runner \<Rightarrow> unit task" where
  "check_clippy check_only fs run = with_Flox (run_clippy (\<not> check_only) run)"

subsection \<open>\<open>task_test.py\<close>\<close>

definition run_unit :: "runner \<Rightarrow> unit task" where
  "run_unit run =
     subprocess_run run [''cargo'', ''test'', ''--workspace'', ''--'', ''--test-threads=1''] None"

definition test_runtime_entry :: "filesystem \<Rightarrow> runner \<Rightarrow> path \<Rightarrow> string \<Rightarrow> unit task" where
  "test_runtime_entry fs run runtimes_dir entry =
     (let runtime_path = path_join runtimes_dir entry in
      if path_isdir fs runtime_path \<and> path_exists fs (path_join runtime_path ''Cargo.toml'')
      then
        and_then (print (CHR 0x0A # ''--- Testing runtime: '' @ entry @ '' ---'')) (\<lambda>_.
          subprocess_run run [''cargo'', ''test''] (Some runtime_path))
      else ([], Inr ()))"

definition run_runtimes :: "filesystem \<Rightarrow> runner \<Rightarrow> unit task" where
  "run_runtimes fs run =
     (let runtimes_dir = path_join (getcwd fs) ''runtimes'' in
      case listdir fs runtimes_dir of
        Inl e \<Rightarrow> ([], Inl (ListdirError e))
      | Inr entries \<Rightarrow> for_each (sort entries) (test_runtime_entry fs run runtimes_dir))"

definition test_all :: "filesystem \<Rightarrow> runner \<Rightarrow> unit task" where
  "test_all fs run = with_Flox (and_then (run_unit run) (\<lambda>_. run_runtimes fs run))"

definition test_unit :: "filesystem \<Rightarrow> runner \<Rightarrow> unit task" where
  "test_unit fs run = with_Flox (run_unit run)"

definition test_runtimes :: "filesystem \<Rightarrow> runner \<Rightarrow> unit task" where
  "test_runtimes fs run = with_Flox (run_runtimes fs run)"

definition test_integration :: "filesystem \<Rightarrow> runner \<Rightarrow> unit task" where
  "test_integration fs run =
     with_Flox
       (subprocess_run run
          [''cargo'', ''test'', ''--workspace'', ''--'', ''--ignored'', ''--test-threads=1'']
          None)"

subsection \<open>\<open>task_docs.py\<close>\<close>

definition docs_build :: "filesystem \<Rightarrow> runner \<Rightarrow> unit task" where
  "docs_build fs run =
     (let docs_dir = path_join (getcwd fs) ''docs'' in
      if \<not> path_exists fs (path_join docs_dir ''book.toml'')
      then print ''Error: docs/book.toml not found''
      else
        with_Flox
          (and_then (subprocess_run run [''mdbook'', ''build''] (Some docs_dir)) (\<lambda>_.
           print (CHR 0x0A # ''Documentation built to '' @ path_join docs_dir ''book''))))"

text \<open>
  \<open>docs_serve\<close> puts \<open>port\<close> into the argument vector as it is. \<open>subprocess.run\<close>
  raises \<open>TypeError\<close>, without launching anything, when an element of the vector is
  not a string.
\<close>

definition docs_serve :: "pyval \<Rightarrow> filesystem \<Rightarrow> runner \<Rightarrow> unit task" where
  "docs_serve port fs run =
     (let docs_dir = path_join (getcwd fs) ''docs'' in
      if \<not> path_exists fs (path_join docs_dir ''book.toml'')
      then print ''Error: docs/book.toml not found''
      else
        with_Flox
          (case port of
             PyStr p \<Rightarrow>
               (let cmd = [''mdbook'', ''serve'', ''--port'', p, ''--open'']
                in subprocess_run run cmd (Some docs_dir))
           | _ \<Rightarrow> ([], Inl (TypeError ''port''))))"

subsection \<open>The command table\<close>

text \<open>
  A command line: the group and the name of the command, with the options typed after
  it. A boolean says whether the option of the command (\<open>--release\<close>,
  \<open>--check-only\<close>) was typed; for \<open>docs serve\<close> the value typed after \<open>--port\<close>,
  if any.
\<close>

datatype command =
    Build_workspace bool
  | Build_runtimes bool
  | Check_all bool
  | Check_workspace
  | Check_fmt bool
  | Check_clippy bool
  | Test_all
  | Test_unit
  | Test_runtimes
  | Test_integration
  | Docs_build
  | Docs_serve "string option"

fun command_line :: "command \<Rightarrow> (string \<times> string option) list" where
  "command_line (Build_workspace typed) = (if typed then [(''release'', None)] else [])"
| "command_line (Build_runtimes typed) = (if typed then [(''release'', None)] else [])"
| "command_line (Check_all typed) = (if typed then [(''check-only'', None)] else [])"
| "command_line (Check_fmt typed) = (if typed then [(''check-only'', None)] else [])"
| "command_line (Check_clippy typed) = (if typed then [(''check-only'', None)] else [])"
| "command_line (Docs_serve None) = []"
| "command_line (Docs_serve (Some v)) = [(''port'', Some v)]"
| "command_line _ = []"

text \<open>
  What an \<open>@angreal.argument\<close> decorator declares. No decorator of the task files
  gives \<open>is_flag\<close> or \<open>default_value\<close>.
\<close>

record argument =
  arg_name :: string
  arg_long :: "string option"
  arg_short :: "string option"
  takes_value :: bool

text \<open>The decorators of each command, and the parameters of the function they decorate.\<close>

fun arguments :: "command \<Rightarrow> argument list" where
  "arguments (Build_workspace _) =
     [\<lparr>arg_name = ''--release'', arg_long = Some ''release'', arg_short = None,
       takes_value = False\<rparr>]"
| "arguments (Build_runtimes _) =
     [\<lparr>arg_name = ''--release'', arg_long = Some ''release'', arg_short = None,
       takes_value = False\<rparr>]"
| "arguments (Check_all _) =
     [\<lparr>arg_name = ''check_only'', arg_long = Some ''check-only'', arg_short = None,
       takes_value = False\<rparr>]"
| "arguments (Check_fmt _) =
     [\<lparr>arg_name = ''check_only'', arg_long = Some ''check-only'', arg_short = None,
       takes_value = False\<rparr>]"
| "arguments (Check_clippy _) =
     [\<lparr>arg_name = ''check_only'', arg_long = Some ''check-only'', arg_short = None,
       takes_value = False\<rparr>]"
| "arguments (Docs_serve _) =
     [\<lparr>arg_name = ''--port'', arg_long = None, arg_short = Some ''p'',
       takes_value = True\<rparr>]"
| "arguments _ = []"

fun parameters :: "command \<Rightarrow> string list" where
  "parameters (Build_workspace _) = [''release'']"
| "parameters (Build_runtimes _) = [''release'']"
| "parameters (Check_all _) = [''check_only'']"
| "parameters (Check_fmt _) = [''check_only'']"
| "parameters (Check_clippy _) = [''check_only'']"
| "parameters (Docs_serve _) = [''port'']"
| "parameters _ = []"

text \<open>
  The command runner is a library outside the task files. Its convention, as far as
  the commands depend on it: an option is recognised on the command line by the long
  form its decorator declares, and a command line with any other option is refused;
  the function is then called with one keyword argument for each declared argument,
  under the declared name. An argument declared with \<open>takes_value=False\<close> and without
  \<open>is_flag\<close> is passed as \<open>None\<close> whether or not its option was typed; an argument
  that takes a value is passed as the string typed, or as \<open>None\<close>.
\<close>

type_synonym kwargs = "(string \<times> pyval) list"

definition keyword_value :: "(string \<times> string option) list \<Rightarrow> argument \<Rightarrow> pyval" where
  "keyword_value typed a =
     (if takes_value a
      then (case arg_long a of
              None \<Rightarrow> PyNone
            | Some l \<Rightarrow> (case map_of typed l of Some (Some v) \<Rightarrow> PyStr v | _ \<Rightarrow> PyNone))
      else PyNone)"

definition parse :: "argument list \<Rightarrow> (string \<times> string option) list \<Rightarrow> exn + kwargs" where
  "parse args typed =
     (if list_ex (\<lambda>l. Some l \<notin> set (map arg_long args)) (map fst typed)
      then Inl UsageError
      else Inr (map (\<lambda>a. (arg_name a, keyword_value typed a)) args))"

text \<open>
  A Python call \<open>f(**kwargs)\<close>: a keyword that is not a parameter of \<open>f\<close> raises
  \<open>TypeError\<close> before the body runs; a parameter that is not passed takes the default
  of the signature.
\<close>

definition unexpected_keyword :: "string list \<Rightarrow> kwargs \<Rightarrow> string option" where
  "unexpected_keyword params kw =
     (case filter (\<lambda>k. k \<notin> set params) (map fst kw) of [] \<Rightarrow> None | k # _ \<Rightarrow> Some k)"

definition keyword_or :: "kwargs \<Rightarrow> string \<Rightarrow> pyval \<Rightarrow> pyval" where
  "keyword_or kw p d = (case map_of kw p of Some v \<Rightarrow> v | None \<Rightarrow> d)"

fun task_function :: "command \<Rightarrow> kwargs \<Rightarrow> filesystem \<Rightarrow> runner \<Rightarrow> unit task" where
  "task_function (Build_workspace _) kw fs run =
     build_workspace (truthy (keyword_or kw ''release'' (PyBool False))) fs run"
| "task_function (Build_runtimes _) kw fs run =
     build_runtimes (truthy (keyword_or kw ''release'' (PyBool False))) fs run"
| "task_function (Check_all _) kw fs run =
     check_all (truthy (keyword_or kw ''check_only'' (PyBool False))) fs run"
| "task_function Check_workspace kw fs run = check_workspace fs run"
| "task_function (Check_fmt _) kw fs run =
     check_fmt (truthy (keyword_or kw ''check_only'' (PyBool False))) fs run"
| "task_function (Check_clippy _) kw fs run =
     check_clippy (truthy (keyword_or kw ''check_only'' (PyBool False))) fs run"
| "task_function Test_all kw fs run = test_all fs run"
| "task_function Test_unit kw fs run = test_unit fs run"
| "task_function Test_runtimes kw fs run = test_runtimes fs run"
| "task_function Test_integration kw fs run = test_integration fs run"
| "task_function Docs_build kw fs run = docs_build fs run"
| "task_function (Docs_serve _) kw fs run =
     docs_serve (keyword_or kw ''port'' (PyStr ''3000'')) fs run"

definition dispatch :: "command \<Rightarrow> filesystem \<Rightarrow> runner \<Rightarrow> unit task" where
  "dispatch c fs run =
     (case parse (arguments c) (command_line c) of
        Inl e \<Rightarrow> ([], Inl e)
      | Inr kw \<Rightarrow>
          (case unexpected_keyword (parameters c) kw of
             Some k \<Rightarrow> ([], Inl (TypeError k))
           | None \<Rightarrow> task_function c kw fs run))"

text \<open>The commands whose declared argument names are parameters of their function.\<close>

definition keywords_accepted :: "command \<Rightarrow> bool" where
  "keywords_accepted c = list_all (\<lambda>a. arg_name a \<in> set (parameters c)) (arguments c)"

text \<open>
  Modelled from the spec: the exit status the command runner hands to the shell is
  not computed in the task files. The spec gives it as 0 on full success and
  otherwise non-zero, propagated from the first failing external invocation or a
  fixed error code. A task function that returns normally is a success; one left by
  an exception is a failure, and so is a call or a command line that is refused. Only
  whether the status is 0 is used below.
\<close>

definition exit_status :: "unit task \<Rightarrow> int" where
  "exit_status m =
     (case snd m of
        Inr _ \<Rightarrow> 0
      | Inl (CalledProcessError returncode _) \<Rightarrow> returncode
      | Inl (LaunchError _) \<Rightarrow> 1
      | Inl (ListdirError _) \<Rightarrow> 1
      | Inl (TypeError _) \<Rightarrow> 1
      | Inl UsageError \<Rightarrow> 1)"

text \<open>The commands that list the runtimes directory.\<close>

fun needs_discovery :: "command \<Rightarrow> bool" where
  "needs_discovery (Build_runtimes _) = True"
| "needs_discovery Test_all = True"
| "needs_discovery Test_runtimes = True"
| "needs_discovery _ = False"

text \<open>
  The test of \<open>docs_build\<close> and \<open>docs_serve\<close> for the documentation configuration,
  which comes before the \<open>with\<close> block.
\<close>

definition book_toml_exists :: "filesystem \<Rightarrow> bool" where
  "book_toml_exists fs = path_exists fs (path_join (path_join (getcwd fs) ''docs'') ''book.toml'')"

subsection \<open>Observations on a run\<close>

text \<open>The external invocations of a run, in the order they were launched.\<close>

fun invocations :: "event list \<Rightarrow> invocation list" where
  "invocations [] = []"
| "invocations (Run i # es) = i # invocations es"
| "invocations (_ # es) = invocations es"

definition succeeded :: "runner \<Rightarrow> invocation \<Rightarrow> bool" where
  "succeeded run i = (run i = Exited 0)"

text \<open>
  The entries the loops of \<open>build_runtimes\<close> and \<open>_run_runtimes\<close> act on: the sorted
  listing of \<open>runtimes\<close> under the working directory, kept where the test of the
  loop body holds.
\<close>

definition is_runtime :: "filesystem \<Rightarrow> path \<Rightarrow> string \<Rightarrow> bool" where
  "is_runtime fs runtimes_dir entry =
     (let runtime_path = path_join runtimes_dir entry in
      path_isdir fs runtime_path \<and> path_exists fs (path_join runtime_path ''Cargo.toml''))"

definition discover :: "filesystem \<Rightarrow> exn + string list" where
  "discover fs =
     (let runtimes_dir = path_join (getcwd fs) ''runtimes'' in
      case listdir fs runtimes_dir of
        Inl e \<Rightarrow> Inl (ListdirError e)
      | Inr entries \<Rightarrow> Inr (filter (is_runtime fs runtimes_dir) (sort entries)))"

text \<open>
  A sequence of operations that stops at its first failure: the operations that
  succeed, up to and including the first that does not.
\<close>

definition attempted :: "('a \<Rightarrow> bool) \<Rightarrow> 'a list \<Rightarrow> 'a list" where
  "attempted ok xs = takeWhile ok xs @ take 1 (dropWhile ok xs)"

text \<open>
  The invariant behind the fail-fast policy: the invocations of a run all succeeded
  unless the run was left by the exception of its last invocation.
\<close>

definition stops_at_failure :: "runner \<Rightarrow> invocation list \<Rightarrow> bool" where
  "stops_at_failure run is =
     (is \<noteq> [] \<and> list_all (succeeded run) (butlast is) \<and> \<not> succeeded run (last is))"

fun fail_fast_on :: "runner \<Rightarrow> invocation list \<Rightarrow> exn + 'a \<Rightarrow> bool" where
  "fail_fast_on run is (Inr _) = list_all (succeeded run) is"
| "fail_fast_on run is (Inl (CalledProcessError returncode _)) =
     (returncode \<noteq> 0 \<and> stops_at_failure run is)"
| "fail_fast_on run is (Inl (LaunchError _)) = stops_at_failure run is"
| "fail_fast_on run is (Inl (ListdirError _)) = list_all (succeeded run) is"
| "fail_fast_on run is (Inl (TypeError _)) = list_all (succeeded run) is"
| "fail_fast_on run is (Inl UsageError) = list_all (succeeded run) is"

definition fail_fast :: "runner \<Rightarrow> 'a task \<Rightarrow> bool" where
  "fail_fast run m = fail_fast_on run (invocations (fst m)) (snd m)"

fun is_listing_error :: "exn + 'a \<Rightarrow> bool" where
  "is_listing_error (Inl (ListdirError _)) = True"
| "is_listing_error _ = False"

definition listing_failed :: "'a task \<Rightarrow> bool" where
  "listing_failed m = is_listing_error (snd m)"

text \<open>A run left by an exception that is not the failure of an external tool.\<close>

fun is_other_error :: "exn + 'a \<Rightarrow> bool" where
  "is_other_error (Inl (ListdirError _)) = True"
| "is_other_error (Inl (TypeError _)) = True"
| "is_other_error (Inl UsageError) = True"
| "is_other_error _ = False"

definition failed_otherwise :: "'a task \<Rightarrow> bool" where
  "failed_otherwise m = is_other_error (snd m)"

subsection \<open>Example inputs\<close>

text \<open>
  A checkout at \<open>/repo\<close> with the runtimes \<open>alpha\<close> and \<open>gamma\<close>, a directory
  \<open>beta\<close> without a manifest, a plain file in the runtimes directory, and the
  documentation configuration in place.
\<close>

definition fs_repo :: filesystem where
  "fs_repo =
     \<lparr>getcwd = ''/repo'',
      listdir = (\<lambda>p. if p = ''/repo/runtimes''
                      then Inr [''gamma'', ''notes.txt'', ''beta'', ''alpha'']
                      else Inl FileNotFoundError),
      path_isdir = (\<lambda>p. p \<in> set [''/repo'', ''/repo/docs'', ''/repo/runtimes'',
                      ''/repo/runtimes/alpha'', ''/repo/runtimes/beta'',
                      ''/repo/runtimes/gamma'']),
      path_exists = (\<lambda>p. p \<in> set [''/repo'', ''/repo/docs'', ''/repo/docs/book.toml'',
                      ''/repo/runtimes'', ''/repo/runtimes/alpha'',
                      ''/repo/runtimes/alpha/Cargo.toml'', ''/repo/runtimes/beta'',
                      ''/repo/runtimes/gamma'', ''/repo/runtimes/gamma/Cargo.toml'',
                      ''/repo/runtimes/notes.txt''])\<rparr>"

text \<open>A checkout with neither a runtimes directory nor a documentation directory.\<close>

definition fs_bare :: filesystem where
  "fs_bare =
     \<lparr>getcwd = ''/repo'',
      listdir = (\<lambda>_. Inl FileNotFoundError),
      path_isdir = (\<lambda>p. p = ''/repo''),
      path_exists = (\<lambda>p. p = ''/repo'')\<rparr>"

text \<open>A checkout whose runtimes directory holds no runtime.\<close>

definition fs_no_runtime :: filesystem where
  "fs_no_runtime =
     \<lparr>getcwd = ''/repo'',
      listdir = (\<lambda>p. if p = ''/repo/runtimes'' then Inr [''notes.txt'', ''beta'']
                      else Inl FileNotFoundError),
      path_isdir = (\<lambda>p. p \<in> set [''/repo'', ''/repo/runtimes'', ''/repo/runtimes/beta'']),
      path_exists = (\<lambda>p. p \<in> set [''/repo'', ''/repo/runtimes'', ''/repo/runtimes/beta'',
                      ''/repo/runtimes/notes.txt''])\<rparr>"

definition all_pass :: runner where
  "all_pass = (\<lambda>_. Exited 0)"

definition all_fail :: runner where
  "all_fail = (\<lambda>_. Exited 1)"

definition gamma_fails :: runner where
  "gamma_fails = (\<lambda>i. if cwd i = Some ''/repo/runtimes/gamma'' then Exited 101 else Exited 0)"

definition fmt_fails :: runner where
  "fmt_fails = (\<lambda>i. if take 2 (argv i) = [''cargo'', ''fmt''] then Exited 1 else Exited 0)"

text \<open>A block that does not itself enter or leave the Flox environment.\<close>

definition no_flox :: "'a task \<Rightarrow> bool" where
  "no_flox m = (FloxEnter \<notin> set (fst m) \<and> FloxExit \<notin> set (fst m))"

section \<open>Properties\<close>

subsection \<open>The fail-fast invariant\<close>

lemma invocations_append: "invocations (a @ b) = invocations a @ invocations b"
  by (induction a rule: invocations.induct) simp_all

lemma stops_at_failure_append:
  "list_all (succeeded run) a \<Longrightarrow> stops_at_failure run b \<Longrightarrow> stops_at_failure run (a @ b)"
  by (simp add: stops_at_failure_def butlast_append)

lemma fail_fast_print: "fail_fast run (print s)"
  by (simp add: fail_fast_def print_def)

lemma fail_fast_skip: "fail_fast run ([], Inr x)"
  by (simp add: fail_fast_def)

lemma fail_fast_subprocess_run: "fail_fast run (subprocess_run run cmd dir)"
  by (simp add: fail_fast_def subprocess_run_def stops_at_failure_def succeeded_def Let_def
      split: completed.splits)

lemma fail_fast_and_then:
  assumes m: "fail_fast run m" and k: "\<And>x. fail_fast run (k x)"
  shows "fail_fast run (and_then m k)"
proof (cases m)
  case (Pair t r)
  show ?thesis
  proof (cases r)
    case (Inl e)
    with Pair m show ?thesis by (cases e) (simp_all add: and_then_def fail_fast_def)
  next
    case (Inr x)
    obtain t' r' where kx: "k x = (t', r')" by (cases "k x")
    from Pair Inr m have ok: "list_all (succeeded run) (invocations t)"
      by (simp add: fail_fast_def)
    have res: "and_then m k = (t @ t', r')"
      using Pair Inr kx by (simp add: and_then_def)
    show ?thesis
    proof (cases r')
      case (Inl e)
      with k [of x] kx ok show ?thesis
        unfolding res
        by (cases e) (simp_all add: fail_fast_def invocations_append stops_at_failure_append)
    next
      case (Inr y)
      with k [of x] kx ok show ?thesis
        unfolding res by (simp add: fail_fast_def invocations_append)
    qed
  qed
qed

lemma invocations_with_Flox: "invocations (fst (with_Flox body)) = invocations (fst body)"
  by (cases body) (simp add: with_Flox_def invocations_append)

lemma snd_with_Flox: "snd (with_Flox body) = snd body"
  by (cases body) (simp add: with_Flox_def)

lemma fail_fast_with_Flox: "fail_fast run body \<Longrightarrow> fail_fast run (with_Flox body)"
  by (simp add: fail_fast_def invocations_with_Flox snd_with_Flox)

lemma fail_fast_for_each:
  "(\<And>x. fail_fast run (body x)) \<Longrightarrow> fail_fast run (for_each xs body)"
  by (induction xs) (simp_all add: fail_fast_skip fail_fast_and_then)

lemma fail_fast_build_runtime_entry:
  "fail_fast run (build_runtime_entry release fs run d entry)"
  by (simp add: build_runtime_entry_def Let_def fail_fast_skip fail_fast_and_then
      fail_fast_print fail_fast_subprocess_run)

lemma fail_fast_test_runtime_entry:
  "fail_fast run (test_runtime_entry fs run d entry)"
  by (simp add: test_runtime_entry_def Let_def fail_fast_skip fail_fast_and_then
      fail_fast_print fail_fast_subprocess_run)

lemma fail_fast_listdir_error: "fail_fast run ([], Inl (ListdirError e))"
  by (simp add: fail_fast_def)

lemma fail_fast_run_runtimes: "fail_fast run (run_runtimes fs run)"
  by (simp add: run_runtimes_def Let_def fail_fast_listdir_error fail_fast_for_each
      fail_fast_test_runtime_entry split: sum.splits)

lemma fail_fast_run_fmt: "fail_fast run (run_fmt a run)"
  by (simp add: run_fmt_def fail_fast_subprocess_run)

lemma fail_fast_run_clippy: "fail_fast run (run_clippy a run)"
  by (simp add: run_clippy_def Let_def fail_fast_subprocess_run)

lemma fail_fast_docs_build: "fail_fast run (docs_build fs run)"
  by (simp add: docs_build_def Let_def fail_fast_print fail_fast_with_Flox fail_fast_and_then
      fail_fast_subprocess_run)

lemma fail_fast_build_runtimes: "fail_fast run (build_runtimes release fs run)"
  unfolding build_runtimes_def Let_def
  by (rule fail_fast_with_Flox)
     (simp add: fail_fast_listdir_error fail_fast_for_each fail_fast_build_runtime_entry
      split: sum.splits)

subsection \<open>Where an exception that is no tool failure can come from\<close>

lemma fst_and_then:
  "fst (and_then m k) = (case snd m of Inl e \<Rightarrow> fst m | Inr x \<Rightarrow> fst m @ fst (k x))"
  by (cases m) (simp add: and_then_def split: sum.splits prod.splits)

lemma snd_and_then:
  "snd (and_then m k) = (case snd m of Inl e \<Rightarrow> Inl e | Inr x \<Rightarrow> snd (k x))"
  by (cases m) (simp add: and_then_def split: sum.splits prod.splits)

lemma not_failed_otherwise_and_then:
  assumes "\<not> failed_otherwise m" and "\<And>x. \<not> failed_otherwise (k x)"
  shows "\<not> failed_otherwise (and_then m k)"
proof (cases "snd m")
  case (Inl e)
  with assms(1) show ?thesis
    by (cases e) (simp_all add: failed_otherwise_def snd_and_then)
next
  case (Inr x)
  with assms(2) [of x] show ?thesis
    by (simp add: failed_otherwise_def snd_and_then)
qed

lemma not_failed_otherwise_subprocess_run: "\<not> failed_otherwise (subprocess_run run cmd dir)"
  by (simp add: failed_otherwise_def subprocess_run_def Let_def split: completed.splits)

lemma not_failed_otherwise_print: "\<not> failed_otherwise (print s)"
  by (simp add: failed_otherwise_def print_def)

lemma not_failed_otherwise_skip: "\<not> failed_otherwise ([], Inr x)"
  by (simp add: failed_otherwise_def)

lemma failed_otherwise_with_Flox: "failed_otherwise (with_Flox body) = failed_otherwise body"
  by (simp add: failed_otherwise_def snd_with_Flox)

lemma not_failed_otherwise_for_each:
  "(\<And>x. \<not> failed_otherwise (body x)) \<Longrightarrow> \<not> failed_otherwise (for_each xs body)"
  by (induction xs) (simp_all add: not_failed_otherwise_skip not_failed_otherwise_and_then)

lemma not_failed_otherwise_build_runtime_entry:
  "\<not> failed_otherwise (build_runtime_entry release fs run d entry)"
  by (simp add: build_runtime_entry_def Let_def not_failed_otherwise_skip
      not_failed_otherwise_and_then not_failed_otherwise_print not_failed_otherwise_subprocess_run)

lemma not_failed_otherwise_test_runtime_entry:
  "\<not> failed_otherwise (test_runtime_entry fs run d entry)"
  by (simp add: test_runtime_entry_def Let_def not_failed_otherwise_skip
      not_failed_otherwise_and_then not_failed_otherwise_print not_failed_otherwise_subprocess_run)

lemma not_failed_otherwise_run_runtimes:
  "listdir fs (path_join (getcwd fs) ''runtimes'') = Inr entries \<Longrightarrow>
   \<not> failed_otherwise (run_runtimes fs run)"
  by (simp add: run_runtimes_def Let_def not_failed_otherwise_for_each
      not_failed_otherwise_test_runtime_entry)

lemma not_failed_otherwise_build_runtimes:
  "listdir fs (path_join (getcwd fs) ''runtimes'') = Inr entries \<Longrightarrow>
   \<not> failed_otherwise (build_runtimes release fs run)"
  by (simp add: build_runtimes_def Let_def failed_otherwise_with_Flox not_failed_otherwise_for_each
      not_failed_otherwise_build_runtime_entry)

lemma not_failed_otherwise_docs_build: "\<not> failed_otherwise (docs_build fs run)"
  by (simp add: docs_build_def Let_def failed_otherwise_with_Flox not_failed_otherwise_print
      not_failed_otherwise_and_then not_failed_otherwise_subprocess_run)

lemma fail_fast_on_all_succeeded:
  "fail_fast_on run is r \<Longrightarrow> list_all (succeeded run) is \<Longrightarrow> \<not> is_other_error r \<Longrightarrow>
   \<exists>x. r = Inr x"
proof (cases r)
  case (Inl e)
  assume "fail_fast_on run is r" "list_all (succeeded run) is" "\<not> is_other_error r"
  with Inl show ?thesis
    by (cases e) (auto simp: stops_at_failure_def list_all_iff)
qed simp

lemma fail_fast_on_failure:
  "fail_fast_on run is r \<Longrightarrow> is = pre @ i # post \<Longrightarrow> \<not> succeeded run i \<Longrightarrow>
   post = [] \<and> (\<exists>e. r = Inl e \<and> (\<forall>rc cmd. e = CalledProcessError rc cmd \<longrightarrow> rc \<noteq> 0)
     \<and> (\<forall>x. e \<noteq> ListdirError x))"
proof (cases r)
  case (Inl e)
  assume "fail_fast_on run is r" "is = pre @ i # post" "\<not> succeeded run i"
  with Inl show ?thesis
    by (cases e) (auto simp: stops_at_failure_def list_all_iff butlast_append split: if_splits)
next
  case (Inr x)
  assume "fail_fast_on run is r" "is = pre @ i # post" "\<not> succeeded run i"
  with Inr show ?thesis by simp
qed


subsection \<open>The events of the loops\<close>

lemma attempted_Nil: "attempted ok [] = []"
  by (simp add: attempted_def)

lemma attempted_Cons: "attempted ok (x # xs) = (if ok x then x # attempted ok xs else [x])"
  by (simp add: attempted_def)

lemma attempted_all: "list_all ok xs \<Longrightarrow> attempted ok xs = xs"
  by (induction xs) (simp_all add: attempted_Nil attempted_Cons)

lemma and_then_skip: "and_then ([], Inr x) k = k x"
  by (simp add: and_then_def split: prod.splits)

lemma for_each_nothing:
  "(\<And>x. x \<in> set xs \<Longrightarrow> body x = ([], Inr ())) \<Longrightarrow> for_each xs body = ([], Inr ())"
  by (induction xs) (simp_all add: and_then_skip)

lemma subprocess_run_fst: "fst (subprocess_run run cmd dir) = [Run \<lparr>argv = cmd, cwd = dir\<rparr>]"
  by (simp add: subprocess_run_def Let_def split: completed.splits)

lemma subprocess_run_snd_Inr:
  "(\<exists>x. snd (subprocess_run run cmd dir) = Inr x) = succeeded run \<lparr>argv = cmd, cwd = dir\<rparr>"
  by (auto simp: subprocess_run_def Let_def succeeded_def split: completed.splits)

lemma subprocess_run_ok:
  "succeeded run \<lparr>argv = cmd, cwd = dir\<rparr> \<Longrightarrow>
   subprocess_run run cmd dir = ([Run \<lparr>argv = cmd, cwd = dir\<rparr>], Inr ())"
  by (simp add: subprocess_run_def Let_def succeeded_def)

lemma subprocess_run_failed:
  "\<not> succeeded run \<lparr>argv = cmd, cwd = dir\<rparr> \<Longrightarrow>
   \<exists>e. subprocess_run run cmd dir = ([Run \<lparr>argv = cmd, cwd = dir\<rparr>], Inl e) \<and> \<not> is_other_error (Inl e :: exn + unit)"
  by (auto simp: subprocess_run_def Let_def succeeded_def split: completed.splits)

lemma and_then_raise: "and_then (t, Inl e) k = (t, Inl e)"
  by (simp add: and_then_def)

lemma and_then_return: "and_then (t, Inr x) k = (t @ fst (k x), snd (k x))"
  by (simp add: and_then_def split: prod.splits)

lemma build_runtime_entry_skip:
  "\<not> is_runtime fs d entry \<Longrightarrow> build_runtime_entry release fs run d entry = ([], Inr ())"
  by (auto simp: build_runtime_entry_def is_runtime_def Let_def)

lemma test_runtime_entry_skip:
  "\<not> is_runtime fs d entry \<Longrightarrow> test_runtime_entry fs run d entry = ([], Inr ())"
  by (auto simp: test_runtime_entry_def is_runtime_def Let_def)

lemma build_runtime_entry_run:
  "is_runtime fs d entry \<Longrightarrow>
   build_runtime_entry release fs run d entry =
     and_then (print (CHR 0x0A # ''--- Building runtime: '' @ entry @ '' ---'')) (\<lambda>_.
       subprocess_run run
         ([''cargo'', ''build'', ''--target'', ''wasm32-wasip1''] @
            (if release then [''--release''] else []))
         (Some (path_join d entry)))"
  by (auto simp: build_runtime_entry_def is_runtime_def Let_def)

lemma test_runtime_entry_run:
  "is_runtime fs d entry \<Longrightarrow>
   test_runtime_entry fs run d entry =
     and_then (print (CHR 0x0A # ''--- Testing runtime: '' @ entry @ '' ---'')) (\<lambda>_.
       subprocess_run run [''cargo'', ''test''] (Some (path_join d entry)))"
  by (auto simp: test_runtime_entry_def is_runtime_def Let_def)

text \<open>A loop whose body prints a marker and launches one tool, on the entries that pass a test.\<close>

lemma for_each_marked:
  assumes skip: "\<And>x. \<not> P x \<Longrightarrow> body x = ([], Inr ())"
    and go: "\<And>x. P x \<Longrightarrow> body x = and_then (print (mark x)) (\<lambda>_. subprocess_run run (cmd x) (dir x))"
  shows "fst (for_each xs body) =
     concat (map (\<lambda>x. [Print (mark x), Run \<lparr>argv = cmd x, cwd = dir x\<rparr>])
       (attempted (\<lambda>x. succeeded run \<lparr>argv = cmd x, cwd = dir x\<rparr>) (filter P xs)))"
proof (induction xs)
  case Nil
  show ?case by (simp add: attempted_Nil)
next
  case (Cons x xs)
  show ?case
  proof (cases "P x")
    case False
    with Cons skip [of x] show ?thesis by (simp add: and_then_skip)
  next
    case True
    show ?thesis
    proof (cases "succeeded run \<lparr>argv = cmd x, cwd = dir x\<rparr>")
      case ok: True
      with True Cons go [of x] show ?thesis
        by (simp add: attempted_Cons print_def and_then_return subprocess_run_ok)
    next
      case bad: False
      from subprocess_run_failed [OF bad] obtain e where
        "subprocess_run run (cmd x) (dir x) = ([Run \<lparr>argv = cmd x, cwd = dir x\<rparr>], Inl e)"
        by blast
      with True bad go [of x] show ?thesis
        by (simp add: attempted_Cons print_def and_then_return and_then_raise)
    qed
  qed
qed

subsection \<open>The Flox environment is entered and left once\<close>

lemma no_flox_print: "no_flox (print s)"
  by (simp add: no_flox_def print_def)

lemma no_flox_skip: "no_flox ([], r)"
  by (simp add: no_flox_def)

lemma no_flox_subprocess_run: "no_flox (subprocess_run run cmd dir)"
  by (simp add: no_flox_def subprocess_run_fst)

lemma no_flox_and_then: "no_flox m \<Longrightarrow> (\<And>x. no_flox (k x)) \<Longrightarrow> no_flox (and_then m k)"
  by (cases "snd m") (auto simp: no_flox_def fst_and_then)

lemma no_flox_for_each: "(\<And>x. no_flox (body x)) \<Longrightarrow> no_flox (for_each xs body)"
  by (induction xs) (simp_all add: no_flox_skip no_flox_and_then)

lemma no_flox_run_runtimes: "no_flox (run_runtimes fs run)"
  by (simp add: run_runtimes_def Let_def test_runtime_entry_def no_flox_skip no_flox_for_each
      no_flox_and_then no_flox_print no_flox_subprocess_run split: sum.splits)

lemma fst_with_Flox: "fst (with_Flox body) = FloxEnter # fst body @ [FloxExit]"
  by (cases body) (simp add: with_Flox_def)

lemma with_Flox_once:
  assumes "no_flox body"
  shows "count_list (fst (with_Flox body)) FloxExit = 1 \<and>
         count_list (fst (with_Flox body)) FloxEnter = 1 \<and>
         hd (fst (with_Flox body)) = FloxEnter \<and> last (fst (with_Flox body)) = FloxExit"
  using assms by (cases body) (simp add: no_flox_def with_Flox_def)

lemma build_runtimes_once:
  "count_list (fst (build_runtimes release fs run)) FloxExit = 1 \<and>
   count_list (fst (build_runtimes release fs run)) FloxEnter = 1 \<and>
   hd (fst (build_runtimes release fs run)) = FloxEnter \<and>
   last (fst (build_runtimes release fs run)) = FloxExit"
  unfolding build_runtimes_def Let_def
  by (rule with_Flox_once)
     (simp add: build_runtime_entry_def Let_def no_flox_skip no_flox_for_each
      no_flox_and_then no_flox_print no_flox_subprocess_run split: sum.splits)

lemma docs_build_once:
  "book_toml_exists fs \<Longrightarrow>
   count_list (fst (docs_build fs run)) FloxExit = 1 \<and>
   count_list (fst (docs_build fs run)) FloxEnter = 1 \<and>
   hd (fst (docs_build fs run)) = FloxEnter \<and>
   last (fst (docs_build fs run)) = FloxExit"
  by (simp add: docs_build_def book_toml_exists_def Let_def with_Flox_once
      no_flox_and_then no_flox_print no_flox_subprocess_run)

subsection \<open>Discovery and the loops over the runtimes\<close>

lemma invocations_marked:
  "invocations (concat (map (\<lambda>x. [Print (mark x), Run (call x)]) xs)) = map call xs"
  by (induction xs) simp_all

lemma sort_mset_eq: "mset xs = mset ys \<Longrightarrow> sort xs = sort ys"
  by (metis sorted_list_of_multiset_mset)

lemma sorted_filter_sort: "sorted (filter P (sort xs))"
  by (simp add: sorted_wrt_filter)

lemma is_runtime_listdir_update: "is_runtime (fs\<lparr>listdir := l\<rparr>) = is_runtime fs"
  by (simp add: fun_eq_iff is_runtime_def)

lemma discover_listing:
  "listdir fs (path_join (getcwd fs) ''runtimes'') = Inr entries \<Longrightarrow>
   discover fs = Inr (filter (is_runtime fs (path_join (getcwd fs) ''runtimes'')) (sort entries))"
  by (simp add: discover_def Let_def)

lemma discover_Inr_listing:
  "discover fs = Inr ts \<Longrightarrow>
   \<exists>entries. listdir fs (path_join (getcwd fs) ''runtimes'') = Inr entries \<and>
     ts = filter (is_runtime fs (path_join (getcwd fs) ''runtimes'')) (sort entries)"
  by (auto simp: discover_def Let_def split: sum.splits)

lemma build_loop_events:
  "fst (for_each xs (build_runtime_entry release fs run d)) =
     concat (map (\<lambda>entry.
         [Print (CHR 0x0A # ''--- Building runtime: '' @ entry @ '' ---''),
          Run \<lparr>argv = [''cargo'', ''build'', ''--target'', ''wasm32-wasip1''] @
                  (if release then [''--release''] else []),
               cwd = Some (path_join d entry)\<rparr>])
       (attempted (\<lambda>entry. succeeded run
            \<lparr>argv = [''cargo'', ''build'', ''--target'', ''wasm32-wasip1''] @
                  (if release then [''--release''] else []),
             cwd = Some (path_join d entry)\<rparr>)
          (filter (is_runtime fs d) xs)))"
  by (rule for_each_marked [where P = "is_runtime fs d"])
     (simp_all add: build_runtime_entry_skip build_runtime_entry_run)

lemma test_loop_events:
  "fst (for_each xs (test_runtime_entry fs run d)) =
     concat (map (\<lambda>entry.
         [Print (CHR 0x0A # ''--- Testing runtime: '' @ entry @ '' ---''),
          Run \<lparr>argv = [''cargo'', ''test''], cwd = Some (path_join d entry)\<rparr>])
       (attempted (\<lambda>entry. succeeded run
            \<lparr>argv = [''cargo'', ''test''], cwd = Some (path_join d entry)\<rparr>)
          (filter (is_runtime fs d) xs)))"
  by (rule for_each_marked [where P = "is_runtime fs d"])
     (simp_all add: test_runtime_entry_skip test_runtime_entry_run)

lemma attempted_all_pass: "attempted (\<lambda>x. succeeded all_pass (call x)) xs = xs"
  by (rule attempted_all) (simp add: list_all_iff succeeded_def all_pass_def)

subsection \<open>A tool followed by further statements\<close>

lemma and_then_subprocess_fst:
  "fst (and_then (subprocess_run run cmd dir) k) =
     Run \<lparr>argv = cmd, cwd = dir\<rparr> #
       (if succeeded run \<lparr>argv = cmd, cwd = dir\<rparr> then fst (k ()) else [])"
proof (cases "succeeded run \<lparr>argv = cmd, cwd = dir\<rparr>")
  case True
  then show ?thesis by (simp add: subprocess_run_ok and_then_return)
next
  case False
  from subprocess_run_failed [OF False] obtain e where
    "subprocess_run run cmd dir = ([Run \<lparr>argv = cmd, cwd = dir\<rparr>], Inl e)" by blast
  with False show ?thesis by (simp add: and_then_raise)
qed

lemma and_then_subprocess_snd:
  "snd (and_then (subprocess_run run cmd dir) k) =
     (if succeeded run \<lparr>argv = cmd, cwd = dir\<rparr> then snd (k ())
      else snd (subprocess_run run cmd dir))"
proof (cases "succeeded run \<lparr>argv = cmd, cwd = dir\<rparr>")
  case True
  then show ?thesis by (simp add: subprocess_run_ok and_then_return)
next
  case False
  from subprocess_run_failed [OF False] obtain e where
    "subprocess_run run cmd dir = ([Run \<lparr>argv = cmd, cwd = dir\<rparr>], Inl e)" by blast
  with False show ?thesis by (simp add: and_then_raise)
qed

lemma subprocess_run_exit_status:
  "exit_status (subprocess_run run cmd dir) = 0 \<longleftrightarrow> succeeded run \<lparr>argv = cmd, cwd = dir\<rparr>"
  by (simp add: exit_status_def subprocess_run_def succeeded_def Let_def split: completed.splits)

lemma runtimes_dir_repo: "path_join (getcwd fs_repo) ''runtimes'' = ''/repo/runtimes''"
  by code_simp

lemma docs_serve_once:
  "book_toml_exists fs \<Longrightarrow>
   count_list (fst (docs_serve port fs run)) FloxExit = 1 \<and>
   count_list (fst (docs_serve port fs run)) FloxEnter = 1"
  by (simp add: docs_serve_def book_toml_exists_def Let_def with_Flox_once no_flox_skip
      no_flox_subprocess_run split: pyval.splits)

lemma docs_build_never_acquired:
  "\<not> book_toml_exists fs \<Longrightarrow>
   count_list (fst (docs_build fs run)) FloxExit = 0 \<and>
   count_list (fst (docs_build fs run)) FloxEnter = 0"
  by (simp add: docs_build_def book_toml_exists_def Let_def print_def)

subsection \<open>What the runner calls\<close>

lemma dispatch_build_workspace:
  "dispatch (Build_workspace typed) fs run = ([], Inl (TypeError ''--release''))"
  by (simp add: dispatch_def parse_def keyword_value_def unexpected_keyword_def)

lemma dispatch_build_runtimes:
  "dispatch (Build_runtimes typed) fs run = ([], Inl (TypeError ''--release''))"
  by (simp add: dispatch_def parse_def keyword_value_def unexpected_keyword_def)

lemma dispatch_check_all: "dispatch (Check_all typed) fs run = check_all False fs run"
  by (simp add: dispatch_def parse_def keyword_value_def unexpected_keyword_def keyword_or_def)

lemma dispatch_check_fmt: "dispatch (Check_fmt typed) fs run = check_fmt False fs run"
  by (simp add: dispatch_def parse_def keyword_value_def unexpected_keyword_def keyword_or_def)

lemma dispatch_check_clippy: "dispatch (Check_clippy typed) fs run = check_clippy False fs run"
  by (simp add: dispatch_def parse_def keyword_value_def unexpected_keyword_def keyword_or_def)

lemma dispatch_no_argument:
  "dispatch Check_workspace fs run = check_workspace fs run"
  "dispatch Test_all fs run = test_all fs run"
  "dispatch Test_unit fs run = test_unit fs run"
  "dispatch Test_runtimes fs run = test_runtimes fs run"
  "dispatch Test_integration fs run = test_integration fs run"
  "dispatch Docs_build fs run = docs_build fs run"
  by (simp_all add: dispatch_def parse_def unexpected_keyword_def)

lemma dispatch_docs_serve_None:
  "dispatch (Docs_serve None) fs run = ([], Inl (TypeError ''--port''))"
  by (simp add: dispatch_def parse_def keyword_value_def unexpected_keyword_def)

lemma dispatch_docs_serve_Some:
  "dispatch (Docs_serve (Some v)) fs run = ([], Inl UsageError)"
  by (simp add: dispatch_def parse_def)

lemmas dispatch_eval =
  dispatch_build_workspace dispatch_build_runtimes dispatch_check_all dispatch_check_fmt
  dispatch_check_clippy dispatch_no_argument dispatch_docs_serve_None dispatch_docs_serve_Some

lemma keywords_accepted_iff:
  "keywords_accepted c =
     (case c of Build_workspace _ \<Rightarrow> False | Build_runtimes _ \<Rightarrow> False
      | Docs_serve _ \<Rightarrow> False | _ \<Rightarrow> True)"
  by (cases c) (simp_all add: keywords_accepted_def)

lemma fail_fast_refused:
  "fail_fast run ([], Inl (TypeError k))" "fail_fast run ([], Inl UsageError)"
  by (simp_all add: fail_fast_def)

lemma fail_fast_dispatch: "fail_fast run (dispatch c fs run)"
proof (cases c)
  case (Docs_serve p)
  then show ?thesis by (cases p) (simp_all add: dispatch_eval fail_fast_refused)
qed (simp_all add: dispatch_eval fail_fast_refused check_all_def
      check_workspace_def check_fmt_def check_clippy_def test_all_def test_unit_def
      test_runtimes_def test_integration_def run_unit_def Let_def
      fail_fast_with_Flox fail_fast_and_then fail_fast_subprocess_run fail_fast_run_fmt
      fail_fast_run_clippy fail_fast_run_runtimes fail_fast_docs_build)

lemma not_failed_otherwise_dispatch:
  assumes "keywords_accepted c"
    and "needs_discovery c \<Longrightarrow>
       \<exists>entries. listdir fs (path_join (getcwd fs) ''runtimes'') = Inr entries"
  shows "\<not> failed_otherwise (dispatch c fs run)"
proof (cases c)
  case Test_runtimes
  with assms(2) show ?thesis
    by (auto simp: dispatch_eval test_runtimes_def failed_otherwise_with_Flox
        not_failed_otherwise_run_runtimes)
next
  case Test_all
  with assms(2) show ?thesis
    by (auto simp: dispatch_eval test_all_def run_unit_def failed_otherwise_with_Flox
        not_failed_otherwise_run_runtimes not_failed_otherwise_and_then
        not_failed_otherwise_subprocess_run)
qed (use assms(1) in \<open>simp_all add: keywords_accepted_iff dispatch_eval check_all_def
      check_workspace_def check_fmt_def check_clippy_def test_unit_def test_integration_def
      run_unit_def run_fmt_def run_clippy_def Let_def failed_otherwise_with_Flox
      not_failed_otherwise_and_then not_failed_otherwise_subprocess_run
      not_failed_otherwise_docs_build\<close>)

subsection \<open>The task functions called with their own parameters\<close>

lemma check_only_flips_argv_in_call:
  "invocations (fst (check_fmt check_only fs run)) =
     [\<lparr>argv = [''cargo'', ''fmt'', ''--all''] @
               (if check_only then [''--'', ''--check''] else []),
       cwd = None\<rparr>] \<and>
   invocations (fst (check_clippy check_only fs run)) =
     [\<lparr>argv = [''cargo'', ''clippy'', ''--workspace''] @
               (if check_only then [] else [''--fix'', ''--allow-dirty'']) @
               [''--'', ''-D'', ''warnings''],
       cwd = None\<rparr>]"
  by (cases check_only)
     (simp_all add: check_fmt_def check_clippy_def run_fmt_def run_clippy_def
      Let_def fst_with_Flox invocations_append subprocess_run_fst)

lemma build_runtimes_events_in_call:
  assumes "discover fs = Inr ts"
  shows "fst (build_runtimes release fs run) =
     FloxEnter #
     concat (map (\<lambda>entry.
         [Print (CHR 0x0A # ''--- Building runtime: '' @ entry @ '' ---''),
          Run \<lparr>argv = [''cargo'', ''build'', ''--target'', ''wasm32-wasip1''] @
                  (if release then [''--release''] else []),
               cwd = Some (path_join (path_join (getcwd fs) ''runtimes'') entry)\<rparr>])
       (attempted (\<lambda>entry. succeeded run
            \<lparr>argv = [''cargo'', ''build'', ''--target'', ''wasm32-wasip1''] @
                  (if release then [''--release''] else []),
             cwd = Some (path_join (path_join (getcwd fs) ''runtimes'') entry)\<rparr>) ts)) @
     [FloxExit]"
proof -
  from discover_Inr_listing [OF assms] obtain entries where
    l: "listdir fs (path_join (getcwd fs) ''runtimes'') = Inr entries" and
    ts: "ts = filter (is_runtime fs (path_join (getcwd fs) ''runtimes'')) (sort entries)"
    by blast
  show ?thesis
    by (simp add: build_runtimes_def Let_def l fst_with_Flox build_loop_events ts)
qed

lemma docs_serve_one_invocation_in_call:
  assumes "book_toml_exists fs"
  shows "invocations (fst (docs_serve (PyStr port) fs run)) =
     [\<lparr>argv = [''mdbook'', ''serve'', ''--port'', port, ''--open''],
       cwd = Some (path_join (getcwd fs) ''docs'')\<rparr>]"
  using assms
  by (simp add: docs_serve_def book_toml_exists_def Let_def fst_with_Flox subprocess_run_fst)

section \<open>The claims\<close>

text \<open>
  C1 (short-circuit), as the code has it. For every command whose declared argument
  names are parameters of its function: if every external invocation of the run
  succeeded and, for the commands that list the runtimes directory, the listing did not
  raise, the exit status is 0. For every command: if an invocation of the run failed, it
  is the last invocation of the run (nothing is launched after the first failure) and
  the exit status is not 0.
\<close>

theorem dispatch_first_failure_stops:
  "(keywords_accepted c \<and>
    list_all (succeeded run) (invocations (fst (dispatch c fs run))) \<and>
    (needs_discovery c \<longrightarrow>
       (\<exists>entries. listdir fs (path_join (getcwd fs) ''runtimes'') = Inr entries))
    \<longrightarrow> exit_status (dispatch c fs run) = 0) \<and>
   (\<forall>pre i post.
      invocations (fst (dispatch c fs run)) = pre @ i # post \<and> \<not> succeeded run i
      \<longrightarrow> post = [] \<and> exit_status (dispatch c fs run) \<noteq> 0)"
proof (intro conjI impI allI)
  assume h: "keywords_accepted c \<and>
    list_all (succeeded run) (invocations (fst (dispatch c fs run))) \<and>
    (needs_discovery c \<longrightarrow>
       (\<exists>entries. listdir fs (path_join (getcwd fs) ''runtimes'') = Inr entries))"
  then have "\<not> is_other_error (snd (dispatch c fs run))"
    using not_failed_otherwise_dispatch [of c fs run] by (auto simp: failed_otherwise_def)
  with h fail_fast_dispatch [of run c fs] obtain x where "snd (dispatch c fs run) = Inr x"
    unfolding fail_fast_def by (blast dest: fail_fast_on_all_succeeded)
  then show "exit_status (dispatch c fs run) = 0"
    by (simp add: exit_status_def)
next
  fix pre i post
  assume h: "invocations (fst (dispatch c fs run)) = pre @ i # post \<and> \<not> succeeded run i"
  have ff: "fail_fast_on run (invocations (fst (dispatch c fs run))) (snd (dispatch c fs run))"
    using fail_fast_dispatch [of run c fs] by (simp add: fail_fast_def)
  from fail_fast_on_failure [OF ff, of pre i post] h
  have "post = [] \<and> (\<exists>e. snd (dispatch c fs run) = Inl e \<and>
      (\<forall>rc cmd. e = CalledProcessError rc cmd \<longrightarrow> rc \<noteq> 0) \<and> (\<forall>x. e \<noteq> ListdirError x))"
    by simp
  then show "post = []" and "exit_status (dispatch c fs run) \<noteq> 0"
    by (auto simp: exit_status_def split: exn.splits)
qed

theorem dispatch_first_failure_stops_witness:
  "keywords_accepted Test_runtimes \<and>
   list_all (succeeded all_pass) (invocations (fst (dispatch Test_runtimes fs_repo all_pass))) \<and>
   (\<exists>entries. listdir fs_repo (path_join (getcwd fs_repo) ''runtimes'') = Inr entries) \<and>
   exit_status (dispatch Test_runtimes fs_repo all_pass) = 0 \<and>
   invocations (fst (dispatch Test_runtimes fs_repo gamma_fails)) =
     [\<lparr>argv = [''cargo'', ''test''], cwd = Some ''/repo/runtimes/alpha''\<rparr>] @
     \<lparr>argv = [''cargo'', ''test''], cwd = Some ''/repo/runtimes/gamma''\<rparr> # [] \<and>
   \<not> succeeded gamma_fails \<lparr>argv = [''cargo'', ''test''], cwd = Some ''/repo/runtimes/gamma''\<rparr> \<and>
   exit_status (dispatch Test_runtimes fs_repo gamma_fails) \<noteq> 0"
proof -
  have k: "keywords_accepted Test_runtimes"
    by (simp add: keywords_accepted_def)
  have a: "list_all (succeeded all_pass)
      (invocations (fst (dispatch Test_runtimes fs_repo all_pass)))"
    by code_simp
  have b: "\<exists>entries. listdir fs_repo (path_join (getcwd fs_repo) ''runtimes'') = Inr entries"
    by (simp add: fs_repo_def path_join_def startswith_sep_def endswith_sep_def)
  have c: "invocations (fst (dispatch Test_runtimes fs_repo gamma_fails)) =
     [\<lparr>argv = [''cargo'', ''test''], cwd = Some ''/repo/runtimes/alpha''\<rparr>] @
     \<lparr>argv = [''cargo'', ''test''], cwd = Some ''/repo/runtimes/gamma''\<rparr> # []"
    by code_simp
  have d: "\<not> succeeded gamma_fails
     \<lparr>argv = [''cargo'', ''test''], cwd = Some ''/repo/runtimes/gamma''\<rparr>"
    by (simp add: succeeded_def gamma_fails_def)
  from dispatch_first_failure_stops [of Test_runtimes all_pass fs_repo] k a b
  have e: "exit_status (dispatch Test_runtimes fs_repo all_pass) = 0"
    by simp
  from dispatch_first_failure_stops [of Test_runtimes gamma_fails fs_repo] c d
  have f: "exit_status (dispatch Test_runtimes fs_repo gamma_fails) \<noteq> 0"
    by blast
  from k a b c d e f show ?thesis by blast
qed

text \<open>
  Without the condition on the listing the first half fails: \<open>test all\<close> in a
  checkout with no runtimes directory launches the workspace tests, which pass, and is
  then left by the exception of \<open>os.listdir\<close>.
\<close>

theorem test_all_listing_fails_counterexample:
  "list_all (succeeded all_pass) (invocations (fst (dispatch Test_all fs_bare all_pass))) \<and>
   exit_status (dispatch Test_all fs_bare all_pass) \<noteq> 0"
  by code_simp

text \<open>
  C2 (\<open>docs build\<close> without \<open>docs/book.toml\<close>), as the code has it. When the
  configuration file is absent the command prints
  \<open>Error: docs/book.toml not found\<close> and returns: no external tool is launched, the Flox
  environment is not entered, and since the function returns normally the exit status
  is 0.
\<close>

theorem docs_build_config_missing:
  assumes "\<not> book_toml_exists fs"
  shows "dispatch Docs_build fs run = ([Print ''Error: docs/book.toml not found''], Inr ()) \<and>
         invocations (fst (dispatch Docs_build fs run)) = [] \<and>
         exit_status (dispatch Docs_build fs run) = 0"
  using assms
  by (simp add: dispatch_no_argument docs_build_def book_toml_exists_def Let_def print_def
      exit_status_def)

theorem docs_build_config_missing_witness:
  "\<not> book_toml_exists fs_bare \<and>
   dispatch Docs_build fs_bare all_pass = ([Print ''Error: docs/book.toml not found''], Inr ()) \<and>
   invocations (fst (dispatch Docs_build fs_bare all_pass)) = [] \<and>
   exit_status (dispatch Docs_build fs_bare all_pass) = 0"
proof -
  have h: "\<not> book_toml_exists fs_bare"
    by (simp add: book_toml_exists_def fs_bare_def path_join_def startswith_sep_def
        endswith_sep_def)
  from h docs_build_config_missing [OF h, of all_pass] show ?thesis by blast
qed

text \<open>
  The claim asks for a non-zero exit status there; the early \<open>return\<close> gives 0.
\<close>

theorem docs_build_exit_zero_counterexample:
  "\<not> book_toml_exists fs_bare \<and> exit_status (dispatch Docs_build fs_bare all_pass) = 0"
  by code_simp

text \<open>
  C3 (release of the environment guard), as the code has it. For every command whose
  declared argument names are parameters of its function, the guard is left as often as
  it is entered. It is entered and left exactly once, first and last event of the run,
  on every path (success, failed invocation, failed listing) except one: \<open>docs build\<close>
  tests for \<open>docs/book.toml\<close> before the \<open>with\<close> block, and when the file is absent
  the guard is neither entered nor left.
\<close>

theorem guard_released_once_when_acquired:
  "keywords_accepted c \<longrightarrow>
   count_list (fst (dispatch c fs run)) FloxExit =
     (if c = Docs_build \<and> \<not> book_toml_exists fs then 0 else 1) \<and>
   count_list (fst (dispatch c fs run)) FloxEnter =
     count_list (fst (dispatch c fs run)) FloxExit \<and>
   (\<not> (c = Docs_build \<and> \<not> book_toml_exists fs) \<longrightarrow>
      hd (fst (dispatch c fs run)) = FloxEnter \<and> last (fst (dispatch c fs run)) = FloxExit)"
proof (cases c)
  case Docs_build
  then show ?thesis
    using docs_build_once [of fs run] docs_build_never_acquired [of fs run]
    by (cases "book_toml_exists fs") (simp_all add: dispatch_no_argument)
qed (simp_all add: keywords_accepted_iff dispatch_eval check_all_def check_workspace_def
      check_fmt_def check_clippy_def test_all_def test_unit_def test_runtimes_def
      test_integration_def run_unit_def run_fmt_def run_clippy_def Let_def
      with_Flox_once no_flox_and_then no_flox_subprocess_run no_flox_run_runtimes)

theorem guard_released_once_when_acquired_witness:
  "keywords_accepted (Check_all True) \<and>
   \<not> (Check_all True = Docs_build \<and> \<not> book_toml_exists fs_repo) \<and>
   count_list (fst (dispatch (Check_all True) fs_repo fmt_fails)) FloxExit = 1 \<and>
   hd (fst (dispatch (Check_all True) fs_repo fmt_fails)) = FloxEnter \<and>
   last (fst (dispatch (Check_all True) fs_repo fmt_fails)) = FloxExit \<and>
   keywords_accepted Docs_build \<and>
   \<not> (Docs_build = Docs_build \<and> \<not> book_toml_exists fs_repo) \<and>
   count_list (fst (dispatch Docs_build fs_repo all_fail)) FloxExit = 1 \<and>
   snd (dispatch Docs_build fs_repo all_fail) = Inl (CalledProcessError 1 [''mdbook'', ''build''])"
proof -
  have k: "keywords_accepted (Check_all True)" "keywords_accepted Docs_build"
    by (simp_all add: keywords_accepted_def)
  have a: "\<not> (Check_all True = Docs_build \<and> \<not> book_toml_exists fs_repo)"
    by simp
  have t: "book_toml_exists fs_repo"
    by code_simp
  then have b: "\<not> (Docs_build = Docs_build \<and> \<not> book_toml_exists fs_repo)"
    by simp
  have c: "snd (dispatch Docs_build fs_repo all_fail) =
      Inl (CalledProcessError 1 [''mdbook'', ''build''])"
    by code_simp
  from guard_released_once_when_acquired [of "Check_all True" fs_repo fmt_fails] k(1)
  have d: "count_list (fst (dispatch (Check_all True) fs_repo fmt_fails)) FloxExit = 1 \<and>
      hd (fst (dispatch (Check_all True) fs_repo fmt_fails)) = FloxEnter \<and>
      last (fst (dispatch (Check_all True) fs_repo fmt_fails)) = FloxExit"
    by simp
  from guard_released_once_when_acquired [of Docs_build fs_repo all_fail] k(2) t
  have e: "count_list (fst (dispatch Docs_build fs_repo all_fail)) FloxExit = 1"
    by simp
  from k a b c d e show ?thesis by blast
qed

text \<open>
  On the precondition path of \<open>docs build\<close> no release is observed at all.
\<close>

theorem docs_build_guard_never_released_counterexample:
  "\<not> book_toml_exists fs_bare \<and>
   count_list (fst (dispatch Docs_build fs_bare all_pass)) FloxExit = 0"
  by code_simp

text \<open>
  C4 (runtime discovery). When the runtimes directory can be listed, discovery returns
  exactly the entries of the listing that are directories holding \<open>Cargo.toml\<close>, in
  sorted order and without repetition when the listing has none. The result does not
  depend on the order in which \<open>os.listdir\<close> hands out the entries, so two runs on
  an unchanged tree return the same list. The list is the one the loops of
  \<open>build runtimes\<close> and \<open>test runtimes\<close> act on: when every tool succeeds, the
  working directories of their invocations are the discovered runtimes in that order.
\<close>

theorem discover_sorted_runtimes:
  assumes "listdir fs (path_join (getcwd fs) ''runtimes'') = Inr entries"
  shows "\<exists>ts. discover fs = Inr ts \<and>
     set ts = {e \<in> set entries.
       path_isdir fs (path_join (path_join (getcwd fs) ''runtimes'') e) \<and>
       path_exists fs
         (path_join (path_join (path_join (getcwd fs) ''runtimes'') e) ''Cargo.toml'')} \<and>
     sorted ts \<and>
     (distinct entries \<longrightarrow> distinct ts) \<and>
     (\<forall>entries'. mset entries' = mset entries \<longrightarrow>
        discover (fs\<lparr>listdir :=
          (listdir fs)(path_join (getcwd fs) ''runtimes'' := Inr entries')\<rparr>) = Inr ts) \<and>
     map cwd (invocations (fst (build_runtimes release fs all_pass))) =
       map (\<lambda>e. Some (path_join (path_join (getcwd fs) ''runtimes'') e)) ts \<and>
     map cwd (invocations (fst (test_runtimes fs all_pass))) =
       map (\<lambda>e. Some (path_join (path_join (getcwd fs) ''runtimes'') e)) ts"
proof -
  let ?d = "path_join (getcwd fs) ''runtimes''"
  let ?ts = "filter (is_runtime fs ?d) (sort entries)"
  have d: "discover fs = Inr ?ts"
    using assms by (rule discover_listing)
  have s: "set ?ts = {e \<in> set entries.
       path_isdir fs (path_join ?d e) \<and>
       path_exists fs (path_join (path_join ?d e) ''Cargo.toml'')}"
    by (auto simp: is_runtime_def Let_def)
  have o: "sorted ?ts"
    by (rule sorted_filter_sort)
  have u: "distinct entries \<longrightarrow> distinct ?ts"
    by simp
  have p: "\<forall>entries'. mset entries' = mset entries \<longrightarrow>
        discover (fs\<lparr>listdir := (listdir fs)(?d := Inr entries')\<rparr>) = Inr ?ts"
    by (auto simp: discover_def Let_def is_runtime_listdir_update dest: sort_mset_eq)
  have b: "map cwd (invocations (fst (build_runtimes release fs all_pass))) =
       map (\<lambda>e. Some (path_join ?d e)) ?ts"
    by (simp add: build_runtimes_def Let_def assms fst_with_Flox invocations_append
        build_loop_events attempted_all_pass invocations_marked comp_def)
  have t: "map cwd (invocations (fst (test_runtimes fs all_pass))) =
       map (\<lambda>e. Some (path_join ?d e)) ?ts"
    by (simp add: test_runtimes_def run_runtimes_def Let_def assms fst_with_Flox
        invocations_append test_loop_events attempted_all_pass invocations_marked comp_def)
  from d s o u p b t show ?thesis by blast
qed

theorem discover_sorted_runtimes_witness:
  "listdir fs_repo (path_join (getcwd fs_repo) ''runtimes'') =
     Inr [''gamma'', ''notes.txt'', ''beta'', ''alpha''] \<and>
   discover fs_repo = Inr [''alpha'', ''gamma''] \<and>
   sorted [''alpha'', ''gamma''] \<and>
   discover (fs_repo\<lparr>listdir := (listdir fs_repo)(path_join (getcwd fs_repo) ''runtimes'' :=
       Inr [''alpha'', ''beta'', ''gamma'', ''notes.txt''])\<rparr>) = Inr [''alpha'', ''gamma''] \<and>
   map cwd (invocations (fst (build_runtimes True fs_repo all_pass))) =
     [Some ''/repo/runtimes/alpha'', Some ''/repo/runtimes/gamma''] \<and>
   map cwd (invocations (fst (test_runtimes fs_repo all_pass))) =
     [Some ''/repo/runtimes/alpha'', Some ''/repo/runtimes/gamma'']"
proof -
  have h: "listdir fs_repo (path_join (getcwd fs_repo) ''runtimes'') =
     Inr [''gamma'', ''notes.txt'', ''beta'', ''alpha'']"
    by code_simp
  from discover_sorted_runtimes [OF h, of True] obtain ts where
    d: "discover fs_repo = Inr ts" and o: "sorted ts" and
    p: "\<forall>entries'. mset entries' = mset [''gamma'', ''notes.txt'', ''beta'', ''alpha''] \<longrightarrow>
        discover (fs_repo\<lparr>listdir := (listdir fs_repo)(path_join (getcwd fs_repo) ''runtimes'' :=
          Inr entries')\<rparr>) = Inr ts" and
    b: "map cwd (invocations (fst (build_runtimes True fs_repo all_pass))) =
       map (\<lambda>e. Some (path_join (path_join (getcwd fs_repo) ''runtimes'') e)) ts" and
    t: "map cwd (invocations (fst (test_runtimes fs_repo all_pass))) =
       map (\<lambda>e. Some (path_join (path_join (getcwd fs_repo) ''runtimes'') e)) ts"
    by blast
  have "discover fs_repo = Inr [''alpha'', ''gamma'']"
    by code_simp
  with d have ts: "ts = [''alpha'', ''gamma'']" by simp
  have m: "mset [''alpha'', ''beta'', ''gamma'', ''notes.txt''] =
      mset [''gamma'', ''notes.txt'', ''beta'', ''alpha'']"
    by simp
  have j: "path_join ''/repo/runtimes'' ''alpha'' = ''/repo/runtimes/alpha''"
      "path_join ''/repo/runtimes'' ''gamma'' = ''/repo/runtimes/gamma''"
    by code_simp+
  from p m have p': "discover (fs_repo\<lparr>listdir := (listdir fs_repo)(path_join (getcwd fs_repo) ''runtimes'' :=
       Inr [''alpha'', ''beta'', ''gamma'', ''notes.txt''])\<rparr>) = Inr ts"
    by blast
  from h d o p' b t show ?thesis
    unfolding ts by (simp add: runtimes_dir_repo j)
qed

text \<open>
  C5 (\<open>check all\<close>). The invocations of \<open>check_all\<close> are the format stage alone when
  it fails, the format and lint stages when the lint stage fails, and otherwise format,
  lint and the workspace check, in that order, for either value of its parameter. The
  command \<open>check all\<close> is the call of \<open>check_all\<close> with a parameter that is not true,
  whatever was typed.
\<close>

theorem check_all_sequence:
  "invocations (fst (check_all check_only fs run)) =
     (let fmt = \<lparr>argv = [''cargo'', ''fmt'', ''--all''] @
                   (if check_only then [''--'', ''--check''] else []),
                 cwd = None\<rparr>;
          lint = \<lparr>argv = [''cargo'', ''clippy'', ''--workspace''] @
                   (if check_only then [] else [''--fix'', ''--allow-dirty'']) @
                   [''--'', ''-D'', ''warnings''],
                  cwd = None\<rparr>;
          chk = \<lparr>argv = [''cargo'', ''check'', ''--workspace''], cwd = None\<rparr>
      in if \<not> succeeded run fmt then [fmt]
         else if \<not> succeeded run lint then [fmt, lint]
         else [fmt, lint, chk]) \<and>
   dispatch (Check_all typed) fs run = check_all False fs run"
  by (cases check_only)
     (simp_all add: dispatch_check_all check_all_def run_fmt_def run_clippy_def Let_def
      fst_with_Flox invocations_append and_then_subprocess_fst subprocess_run_fst)

theorem check_all_sequence_witness:
  "invocations (fst (check_all True fs_repo fmt_fails)) =
     [\<lparr>argv = [''cargo'', ''fmt'', ''--all'', ''--'', ''--check''], cwd = None\<rparr>] \<and>
   invocations (fst (check_all True fs_repo all_pass)) =
     [\<lparr>argv = [''cargo'', ''fmt'', ''--all'', ''--'', ''--check''], cwd = None\<rparr>,
      \<lparr>argv = [''cargo'', ''clippy'', ''--workspace'', ''--'', ''-D'', ''warnings''], cwd = None\<rparr>,
      \<lparr>argv = [''cargo'', ''check'', ''--workspace''], cwd = None\<rparr>] \<and>
   invocations (fst (dispatch (Check_all True) fs_repo fmt_fails)) =
     [\<lparr>argv = [''cargo'', ''fmt'', ''--all''], cwd = None\<rparr>]"
  using check_all_sequence [of True fs_repo fmt_fails True]
    check_all_sequence [of True fs_repo all_pass True]
    check_all_sequence [of False fs_repo fmt_fails True]
  by (simp add: Let_def succeeded_def fmt_fails_def all_pass_def)

text \<open>
  C6 (the check-only flag): what the commands do. The functions build the two argument
  vectors from their parameter (\<open>check_only_flips_argv_in_call\<close> above), but the
  decorators declare \<open>check_only\<close> with \<open>takes_value=False\<close> and no \<open>is_flag\<close>, and
  the function is called with \<open>None\<close> whether or not \<open>--check-only\<close> is typed. So
  \<open>check fmt\<close>, \<open>check clippy\<close> and \<open>check all\<close> issue the vectors of the apply
  mode in both cases: the flag flips nothing.
\<close>

theorem check_only_never_reaches_function:
  "invocations (fst (dispatch (Check_fmt typed) fs run)) =
     [\<lparr>argv = [''cargo'', ''fmt'', ''--all''], cwd = None\<rparr>] \<and>
   invocations (fst (dispatch (Check_clippy typed) fs run)) =
     [\<lparr>argv = [''cargo'', ''clippy'', ''--workspace'', ''--fix'', ''--allow-dirty'',
                ''--'', ''-D'', ''warnings''],
       cwd = None\<rparr>] \<and>
   dispatch (Check_all True) fs run = dispatch (Check_all False) fs run \<and>
   invocations (fst (dispatch (Check_all True) fs_repo all_pass)) =
     [\<lparr>argv = [''cargo'', ''fmt'', ''--all''], cwd = None\<rparr>,
      \<lparr>argv = [''cargo'', ''clippy'', ''--workspace'', ''--fix'', ''--allow-dirty'',
                ''--'', ''-D'', ''warnings''],
       cwd = None\<rparr>,
      \<lparr>argv = [''cargo'', ''check'', ''--workspace''], cwd = None\<rparr>]"
  by (simp add: dispatch_check_all dispatch_check_fmt dispatch_check_clippy check_all_def
      check_fmt_def check_clippy_def run_fmt_def run_clippy_def Let_def fst_with_Flox
      invocations_append and_then_subprocess_fst subprocess_run_fst succeeded_def all_pass_def)

text \<open>
  C7 (listing of the runtimes directory fails), as the code has it. \<open>test runtimes\<close>
  is left by the exception of \<open>os.listdir\<close> with no invocation at all. \<open>test all\<close>
  launches the workspace tests first and nothing else: it is left by the listing error
  when they pass and by their own failure when they do not. In every case the exit
  status is not 0 and no per-runtime invocation is attempted.
\<close>

theorem listing_error_surfaces:
  assumes "listdir fs (path_join (getcwd fs) ''runtimes'') = Inl e"
  shows "dispatch Test_runtimes fs run = ([FloxEnter, FloxExit], Inl (ListdirError e)) \<and>
     invocations (fst (dispatch Test_all fs run)) =
       [\<lparr>argv = [''cargo'', ''test'', ''--workspace'', ''--'', ''--test-threads=1''],
         cwd = None\<rparr>] \<and>
     snd (dispatch Test_all fs run) =
       (if succeeded run
             \<lparr>argv = [''cargo'', ''test'', ''--workspace'', ''--'', ''--test-threads=1''],
               cwd = None\<rparr>
        then Inl (ListdirError e) else snd (run_unit run)) \<and>
     exit_status (dispatch Test_runtimes fs run) \<noteq> 0 \<and>
     exit_status (dispatch Test_all fs run) \<noteq> 0"
proof -
  let ?u = "\<lparr>argv = [''cargo'', ''test'', ''--workspace'', ''--'', ''--test-threads=1''],
             cwd = None\<rparr>"
  have r: "run_runtimes fs run = ([], Inl (ListdirError e))"
    using assms by (simp add: run_runtimes_def Let_def)
  have t: "dispatch Test_runtimes fs run = ([FloxEnter, FloxExit], Inl (ListdirError e))"
    by (simp add: dispatch_no_argument test_runtimes_def r with_Flox_def)
  have i: "invocations (fst (dispatch Test_all fs run)) = [?u]"
    by (simp add: dispatch_no_argument test_all_def run_unit_def r fst_with_Flox
        invocations_append and_then_subprocess_fst)
  have s: "snd (dispatch Test_all fs run) =
       (if succeeded run ?u then Inl (ListdirError e) else snd (run_unit run))"
    by (simp add: dispatch_no_argument test_all_def run_unit_def r snd_with_Flox
        and_then_subprocess_snd)
  have "exit_status (run_unit run) \<noteq> 0" if "\<not> succeeded run ?u"
    using that by (simp add: run_unit_def subprocess_run_exit_status)
  then have x: "exit_status (dispatch Test_all fs run) \<noteq> 0"
    using s by (simp add: exit_status_def)
  from t i s x show ?thesis by (simp add: exit_status_def)
qed

theorem listing_error_surfaces_witness:
  "listdir fs_bare (path_join (getcwd fs_bare) ''runtimes'') = Inl FileNotFoundError \<and>
   dispatch Test_runtimes fs_bare all_pass =
     ([FloxEnter, FloxExit], Inl (ListdirError FileNotFoundError)) \<and>
   snd (dispatch Test_all fs_bare all_pass) = Inl (ListdirError FileNotFoundError) \<and>
   exit_status (dispatch Test_all fs_bare all_pass) \<noteq> 0"
proof -
  have h: "listdir fs_bare (path_join (getcwd fs_bare) ''runtimes'') = Inl FileNotFoundError"
    by (simp add: fs_bare_def)
  from h listing_error_surfaces [OF h, of all_pass] show ?thesis
    by (simp add: succeeded_def all_pass_def)
qed

text \<open>
  With failing workspace tests \<open>test all\<close> does not fail with a discovery error: the
  listing is never reached.
\<close>

theorem test_all_unit_failure_counterexample:
  "listdir fs_bare (path_join (getcwd fs_bare) ''runtimes'') = Inl FileNotFoundError \<and>
   snd (dispatch Test_all fs_bare all_fail) =
     Inl (CalledProcessError 1
       [''cargo'', ''test'', ''--workspace'', ''--'', ''--test-threads=1'']) \<and>
   \<not> listing_failed (dispatch Test_all fs_bare all_fail)"
  by code_simp

text \<open>
  C8 (\<open>build runtimes\<close>): what the command does. The function does what is asked when
  it is called with its own parameter (\<open>build_runtimes_events_in_call\<close> above). But the
  decorator registers the argument under the name \<open>--release\<close>, which is not the
  parameter \<open>release\<close>: the call raises \<open>TypeError\<close> before the body, with or without
  the flag. No marker is printed, nothing is built, the exit status is not 0.
\<close>

theorem build_runtimes_keyword_refused:
  "dispatch (Build_runtimes typed) fs run = ([], Inl (TypeError ''--release'')) \<and>
   invocations (fst (dispatch (Build_runtimes typed) fs run)) = [] \<and>
   exit_status (dispatch (Build_runtimes typed) fs run) \<noteq> 0 \<and>
   discover fs_repo = Inr [''alpha'', ''gamma''] \<and>
   fst (dispatch (Build_runtimes True) fs_repo all_pass) = []"
proof -
  have "discover fs_repo = Inr [''alpha'', ''gamma'']"
    by code_simp
  then show ?thesis
    by (simp add: dispatch_build_runtimes exit_status_def)
qed

text \<open>
  C9 (\<open>docs serve\<close>): what the command does. The function performs the one invocation
  when it is called with a port or with none (\<open>docs_serve_one_invocation_in_call\<close>
  above). But the decorator registers the argument under the name \<open>--port\<close>, which is
  not the parameter \<open>port\<close>, and declares no long form: \<open>docs serve\<close> raises
  \<open>TypeError\<close> before the body, and \<open>docs serve --port 8080\<close> is refused as a command
  line. Nothing is launched either way, and the exit status is not 0.
\<close>

theorem docs_serve_keyword_refused:
  "dispatch (Docs_serve None) fs run = ([], Inl (TypeError ''--port'')) \<and>
   dispatch (Docs_serve (Some v)) fs run = ([], Inl UsageError) \<and>
   invocations (fst (dispatch (Docs_serve port) fs run)) = [] \<and>
   exit_status (dispatch (Docs_serve port) fs run) \<noteq> 0 \<and>
   book_toml_exists fs_repo \<and>
   fst (dispatch (Docs_serve None) fs_repo all_pass) = []"
proof -
  have "book_toml_exists fs_repo"
    by code_simp
  then show ?thesis
    by (cases port) (simp_all add: dispatch_docs_serve_None dispatch_docs_serve_Some
        exit_status_def)
qed

text \<open>
  C10 (no runtime to act on): what the commands do. When the runtimes directory can be
  listed and no entry is a directory holding \<open>Cargo.toml\<close> (the empty listing
  included), \<open>test runtimes\<close> launches no external process and ends with exit status
  0. \<open>build runtimes\<close> launches nothing either, but its call is refused (the keyword
  \<open>--release\<close> of C8) and its exit status is not 0.
\<close>

theorem no_runtime_nothing_launched:
  assumes "listdir fs (path_join (getcwd fs) ''runtimes'') = Inr entries"
    and "\<forall>e \<in> set entries.
       \<not> (path_isdir fs (path_join (path_join (getcwd fs) ''runtimes'') e) \<and>
          path_exists fs
            (path_join (path_join (path_join (getcwd fs) ''runtimes'') e) ''Cargo.toml''))"
  shows "invocations (fst (dispatch Test_runtimes fs run)) = [] \<and>
     exit_status (dispatch Test_runtimes fs run) = 0 \<and>
     invocations (fst (dispatch (Build_runtimes typed) fs run)) = [] \<and>
     exit_status (dispatch (Build_runtimes typed) fs run) \<noteq> 0"
proof -
  let ?d = "path_join (getcwd fs) ''runtimes''"
  have none: "\<And>x. x \<in> set (sort entries) \<Longrightarrow> \<not> is_runtime fs ?d x"
    using assms(2) by (simp add: is_runtime_def Let_def)
  have t: "for_each (sort entries) (test_runtime_entry fs run ?d) = ([], Inr ())"
    by (rule for_each_nothing) (simp add: none test_runtime_entry_skip)
  show ?thesis
    by (simp add: dispatch_no_argument dispatch_build_runtimes test_runtimes_def
        run_runtimes_def Let_def assms(1) t with_Flox_def exit_status_def)
qed

theorem no_runtime_nothing_launched_witness:
  "listdir fs_no_runtime (path_join (getcwd fs_no_runtime) ''runtimes'') =
     Inr [''notes.txt'', ''beta''] \<and>
   invocations (fst (dispatch Test_runtimes fs_no_runtime all_fail)) = [] \<and>
   exit_status (dispatch Test_runtimes fs_no_runtime all_fail) = 0 \<and>
   invocations (fst (dispatch (Build_runtimes False) fs_no_runtime all_pass)) = [] \<and>
   exit_status (dispatch (Build_runtimes False) fs_no_runtime all_pass) \<noteq> 0"
proof -
  have h: "listdir fs_no_runtime (path_join (getcwd fs_no_runtime) ''runtimes'') =
     Inr [''notes.txt'', ''beta'']"
    by code_simp
  have n: "\<forall>e \<in> set [''notes.txt'', ''beta''].
       \<not> (path_isdir fs_no_runtime
             (path_join (path_join (getcwd fs_no_runtime) ''runtimes'') e) \<and>
          path_exists fs_no_runtime
            (path_join (path_join (path_join (getcwd fs_no_runtime) ''runtimes'') e)
               ''Cargo.toml''))"
    by code_simp
  from h no_runtime_nothing_launched [OF h n, of all_fail False]
    no_runtime_nothing_launched [OF h n, of all_pass False]
  show ?thesis
    by blast
qed

end
